theory Spec2Isabelle
  imports Complex_Main
begin

section \<open>The Game class of comps-reveal as a state machine\<close>

text \<open>
  The repository is one JavaScript class, \<open>Game\<close>, and a loader (\<open>main.js\<close>) that
  constructs it once. The class keeps the whole game in its fields and mutates them from
  four kinds of callbacks: clicks on the two play buttons, \<open>keydown\<close> events, the
  movement interval and the spawn interval. The model is explicit state passing: every
  method is a function from the state to the updated state. Rendering (the DOM grid, the
  cards, the score label) writes nothing that the logic reads back and is left out.

  Numbers are JavaScript doubles holding small integers; they are modelled as \<open>int\<close>.
  A draw of \<open>Math.random()\<close> is a double in \<open>[0, 1)\<close>; it is modelled as a \<open>real\<close>,
  and the random source of one call of \<open>spawnCars\<close> as a function \<open>nat \<Rightarrow> real\<close> whose
  value at \<open>k\<close> is the \<open>k\<close>-th draw of that call. The program rounds the product of a
  draw and 12 to a double before it takes the floor, the model does not. Rounding is
  monotone and the largest draw, \<open>1 - 2\<^sup>-\<^sup>5\<^sup>3\<close>, gives a product that rounds to
  the double just below 12, so the bounds that the model gives for the floor are bounds of
  the program's floor as well; the product by 4 and the comparison with one half are exact.
\<close>

subsection \<open>Grid constants (constructor, lines 18-19)\<close>

definition gridRows :: int where
  "gridRows = 15"

definition gridCols :: int where
  "gridCols = 10"

text \<open>\<open>renderGrid\<close>, lines 173-176, marks the road lanes: rows 1 to 13.\<close>

definition isLane :: "int \<Rightarrow> bool" where
  "isLane r = (r > 0 \<and> r < 14)"

text \<open>A cell of the grid.\<close>

definition inGrid :: "int \<Rightarrow> int \<Rightarrow> bool" where
  "inGrid r c = (0 \<le> r \<and> r < gridRows \<and> 0 \<le> c \<and> c < gridCols)"

subsection \<open>Data\<close>

text \<open>A car is the object literal \<open>{ row, col, direction }\<close> pushed by \<open>spawnCars\<close>; the
  direction is one of the two strings \<open>'left'\<close> and \<open>'right'\<close>.\<close>

datatype direction = Left | Right

record car =
  row :: int
  col :: int
  direction :: direction

text \<open>
  The fields of \<open>Game\<close> that the logic reads, under their own names, and three pieces of
  the browser's state that the methods write:
  \<^item> \<open>revealModal\<close>: \<open>Some i\<close> while the reveal modal is active and shows competition \<open>i\<close>;
  \<^item> \<open>keydownListener\<close>: whether \<open>handleKeyPress\<close> is registered on \<open>window\<close>;
  \<^item> \<open>playthroughs\<close>: the item \<open>'playthroughs'\<close> of \<open>localStorage\<close>, \<open>None\<close> when absent.
\<close>

record game =
  isPlaying :: bool
  score :: int
  playerRow :: int
  playerCol :: int
  cars :: "car list"
  revealedComps :: "nat list"
  isWaitingForInput :: bool
  revealModal :: "nat option"
  keydownListener :: bool
  playthroughs :: "int option"

subsection \<open>Construction (constructor and main.js)\<close>

datatype js_error = TypeError

datatype js_value = Undefined | Data | Function

text \<open>The methods that the class body defines, in source order.\<close>

definition Game_prototype :: "string list" where
  "Game_prototype =
    [''init'', ''checkPermanentReveals'', ''startGame'', ''renderGrid'', ''renderPlayer'',
     ''renderCars'', ''getCell'', ''handleKeyPress'', ''checkCollisions'', ''startGameLoop'',
     ''startCarSpawning'', ''spawnCars'', ''updateScore'', ''checkCompetitionReveals'',
     ''showRevealModal'', ''pauseGame'', ''resumeGame'', ''renderCompetitionCards'',
     ''gameOver'']"

text \<open>The own properties that the constructor has assigned when it reaches line 69; all of
  them hold data (booleans, numbers, arrays, \<open>null\<close>).\<close>

definition own_fields :: "(string \<times> js_value) list" where
  "own_fields = map (\<lambda>n. (n, Data))
    [''isPlaying'', ''score'', ''playerRow'', ''playerCol'', ''gameSpeed'', ''cars'',
     ''gameInterval'', ''carInterval'', ''gridRows'', ''gridCols'', ''competitions'',
     ''revealedComps'', ''titleScreen'', ''gameScreen'', ''gameOverModal'', ''gameGrid'',
     ''scoreDisplay'', ''competitionCards'', ''playButton'', ''playAgainButton'',
     ''revealModal'', ''isWaitingForInput'', ''touchStartX'', ''touchStartY'']"

text \<open>\<open>this.m\<close>: an own property wins, then the prototype, else \<open>undefined\<close>. The class
  extends nothing, and \<open>Object.prototype\<close> has none of the four names that the constructor
  binds.\<close>

definition get_member :: "(string \<times> js_value) list \<Rightarrow> string \<Rightarrow> js_value" where
  "get_member own m =
    (case map_of own m of
       Some v \<Rightarrow> v
     | None \<Rightarrow> if m \<in> set Game_prototype then Function else Undefined)"

text \<open>\<open>this.m = this.m.bind(this)\<close>: reading \<open>bind\<close> from \<open>undefined\<close> throws, and calling
  the \<open>bind\<close> of a value that is no function throws as well.\<close>

definition bind_this :: "(string \<times> js_value) list \<Rightarrow> string \<Rightarrow> js_error + (string \<times> js_value) list" where
  "bind_this own m =
    (case get_member own m of
       Function \<Rightarrow> Inr ((m, Function) # own)
     | _ \<Rightarrow> Inl TypeError)"

text \<open>The values of lines 8-66, with the browser's state as the page load finds it.\<close>

definition Game_fields :: "int option \<Rightarrow> game" where
  "Game_fields stored =
    \<lparr> isPlaying = False, score = 0, playerRow = 14, playerCol = 4, cars = [],
      revealedComps = [], isWaitingForInput = False, revealModal = None,
      keydownListener = False, playthroughs = stored \<rparr>"

definition Game_constructor :: "int option \<Rightarrow> js_error + game" where
  "Game_constructor stored =
    (case bind_this own_fields ''handleKeyPress'' of Inl e \<Rightarrow> Inl e | Inr o1 \<Rightarrow>
     case bind_this o1 ''handleTouchStart'' of Inl e \<Rightarrow> Inl e | Inr o2 \<Rightarrow>
     case bind_this o2 ''handleTouchEnd'' of Inl e \<Rightarrow> Inl e | Inr o3 \<Rightarrow>
     case bind_this o3 ''checkCollisions'' of Inl e \<Rightarrow> Inl e | Inr o4 \<Rightarrow>
     Inr (Game_fields stored))"

subsection \<open>Loading (init, checkPermanentReveals)\<close>

definition checkPermanentReveals :: "game \<Rightarrow> game" where
  "checkPermanentReveals g =
    (let n = (case playthroughs g of None \<Rightarrow> 0 | Some k \<Rightarrow> k)
     in if n \<ge> 3 then g\<lparr>revealedComps := [0, 1, 2, 3]\<rparr> else g)"

definition init :: "game \<Rightarrow> game" where
  "init g = checkPermanentReveals g"

text \<open>The \<open>DOMContentLoaded\<close> handler of main.js: \<open>new Game()\<close>, then \<open>game.init()\<close>.\<close>

definition DOMContentLoaded :: "int option \<Rightarrow> js_error + game" where
  "DOMContentLoaded stored =
    (case Game_constructor stored of Inl e \<Rightarrow> Inl e | Inr g \<Rightarrow> Inr (init g))"

subsection \<open>Collision, game over, pause\<close>

definition checkCollisions :: "game \<Rightarrow> bool" where
  "checkCollisions g =
    list_ex (\<lambda>car. row car = playerRow g \<and> col car = playerCol g) (cars g)"

definition gameOver :: "game \<Rightarrow> game" where
  "gameOver g =
    (let n = (case playthroughs g of None \<Rightarrow> 0 | Some k \<Rightarrow> k)
     in g\<lparr>isPlaying := False, keydownListener := False, playthroughs := Some (n + 1)\<rparr>)"

definition pauseGame :: "game \<Rightarrow> game" where
  "pauseGame g = g\<lparr>isPlaying := False\<rparr>"

definition showRevealModal :: "nat \<Rightarrow> game \<Rightarrow> game" where
  "showRevealModal index g =
    (pauseGame g)\<lparr>revealModal := Some index, isWaitingForInput := True\<rparr>"

subsection \<open>Spawning (spawnCars, startCarSpawning)\<close>

text \<open>Line 358, the number of attempts, and line 361, the lane of one attempt.\<close>

definition numCars :: "real \<Rightarrow> nat" where
  "numCars r = nat (\<lfloor>r * 4\<rfloor> + 2)"

definition spawnRow :: "real \<Rightarrow> int" where
  "spawnRow r = \<lfloor>r * 12\<rfloor> + 1"

definition spawnDirection :: "real \<Rightarrow> direction" where
  "spawnDirection r = (if r > 1 / 2 then Left else Right)"

text \<open>The body of the loop, lines 361-370, on the two draws of the attempt.\<close>

definition spawnAttempt :: "real \<Rightarrow> real \<Rightarrow> car list \<Rightarrow> car list" where
  "spawnAttempt r1 r2 cs =
    (let rw = spawnRow r1;
         d = spawnDirection r2;
         c = (if d = Left then gridCols - 1 else 0)
     in if \<not> list_ex (\<lambda>car. row car = rw) cs
        then cs @ [\<lparr> row = rw, col = c, direction = d \<rparr>]
        else cs)"

definition spawnCars :: "(nat \<Rightarrow> real) \<Rightarrow> game \<Rightarrow> game" where
  "spawnCars rnd g =
    g\<lparr>cars := fold (\<lambda>i. spawnAttempt (rnd (2 * i + 1)) (rnd (2 * i + 2)))
                  [0 ..< numCars (rnd 0)] (cars g)\<rparr>"

text \<open>\<open>startCarSpawning\<close> spawns at once and installs the spawn interval, whose callback
  is \<open>carTick\<close>.\<close>

definition startCarSpawning :: "(nat \<Rightarrow> real) \<Rightarrow> game \<Rightarrow> game" where
  "startCarSpawning rnd g = spawnCars rnd g"

definition carTick :: "(nat \<Rightarrow> real) \<Rightarrow> game \<Rightarrow> game" where
  "carTick rnd g = (if isPlaying g then spawnCars rnd g else g)"

subsection \<open>The movement interval (startGameLoop)\<close>

text \<open>The body of the \<open>forEach\<close> of lines 314-326, on one car.\<close>

definition moveCar :: "car \<Rightarrow> car" where
  "moveCar car =
    (if direction car = Left
     then (let c = col car - 1 in car\<lparr>col := (if c < 0 then gridCols - 1 else c)\<rparr>)
     else (let c = col car + 1 in car\<lparr>col := (if c \<ge> gridCols then 0 else c)\<rparr>))"

text \<open>The callback of the movement interval, lines 310-335.\<close>

definition gameTick :: "game \<Rightarrow> game" where
  "gameTick g =
    (if \<not> isPlaying g then g
     else (let g1 = g\<lparr>cars := map moveCar (cars g)\<rparr>
           in if checkCollisions g1 then gameOver g1 else g1))"

subsection \<open>Starting and resuming a run\<close>

definition startGame :: "(nat \<Rightarrow> real) \<Rightarrow> game \<Rightarrow> game" where
  "startGame rnd g =
    startCarSpawning rnd
      (g\<lparr>revealModal := None, isPlaying := True, isWaitingForInput := False, score := 0,
         playerRow := 14, playerCol := 4, cars := [], revealedComps := [],
         keydownListener := True\<rparr>)"

definition resumeGame :: "(nat \<Rightarrow> real) \<Rightarrow> game \<Rightarrow> game" where
  "resumeGame rnd g =
    startCarSpawning rnd
      (g\<lparr>revealModal := None, isWaitingForInput := False, isPlaying := True\<rparr>)"

subsection \<open>Milestones (checkCompetitionReveals)\<close>

definition milestones :: "int list" where
  "milestones = [10, 20, 30, 40]"

text \<open>Lines 401-403, what firing milestone \<open>index\<close> does: the index is pushed and its
  reveal is shown, which pauses the game.\<close>

definition reveal :: "nat \<Rightarrow> game \<Rightarrow> game" where
  "reveal index g = showRevealModal index (g\<lparr>revealedComps := revealedComps g @ [index]\<rparr>)"

text \<open>The callback of \<open>milestones.forEach\<close>, lines 399-405.\<close>

definition revealStep :: "int \<times> nat \<Rightarrow> game \<Rightarrow> game" where
  "revealStep mi g =
    (case mi of (milestone, index) \<Rightarrow>
       if score g = milestone \<and> index \<notin> set (revealedComps g)
       then reveal index g
       else g)"

definition checkCompetitionReveals :: "game \<Rightarrow> game" where
  "checkCompetitionReveals g =
    fold revealStep (zip milestones [0 ..< length milestones]) g"

subsection \<open>Key presses (handleKeyPress)\<close>

text \<open>The \<open>switch\<close> of lines 240-258: the candidate cell, or \<open>None\<close> for the \<open>default\<close>
  branch, which returns.\<close>

definition keyTarget :: "string \<Rightarrow> game \<Rightarrow> (int \<times> int) option" where
  "keyTarget key g =
    (if key = ''ArrowUp'' then Some (max 0 (playerRow g - 1), playerCol g)
     else if key = ''ArrowDown'' then Some (min (gridRows - 1) (playerRow g + 1), playerCol g)
     else if key = ''ArrowLeft'' then Some (playerRow g, max 0 (playerCol g - 1))
     else if key = ''ArrowRight'' then Some (playerRow g, min (gridCols - 1) (playerCol g + 1))
     else None)"

text \<open>Lines 262-271: the move is committed and an upward move scores.\<close>

definition commitMove :: "int \<Rightarrow> int \<Rightarrow> game \<Rightarrow> game" where
  "commitMove newRow newCol g =
    (let oldRow = playerRow g;
         g1 = g\<lparr>playerRow := newRow, playerCol := newCol\<rparr>
     in if newRow < oldRow
        then checkCompetitionReveals (g1\<lparr>score := score g1 + 1\<rparr>)
        else g1)"

text \<open>Lines 277-284, the body of the scroll: the player and every car go ten rows down and
  the cars that left the grid are dropped. Lines 276-285 guard it.\<close>

definition shiftRows :: "game \<Rightarrow> game" where
  "shiftRows g =
    g\<lparr>playerRow := playerRow g + 10,
      cars := filter (\<lambda>car. row car < gridRows)
                (map (\<lambda>car. car\<lparr>row := row car + 10\<rparr>) (cars g))\<rparr>"

definition infiniteScroll :: "game \<Rightarrow> game" where
  "infiniteScroll g = (if score g > 13 \<and> playerRow g < 5 then shiftRows g else g)"

text \<open>Lines 240-294, what a key does once the two guards of lines 233-238 have passed.\<close>

definition applyMove :: "string \<Rightarrow> game \<Rightarrow> game" where
  "applyMove key g =
    (case keyTarget key g of
       None \<Rightarrow> g
     | Some (newRow, newCol) \<Rightarrow>
         if newRow \<noteq> playerRow g \<or> newCol \<noteq> playerCol g
         then (let g2 = infiniteScroll (commitMove newRow newCol g)
               in if checkCollisions g2 then gameOver g2 else g2)
         else g)"

definition handleKeyPress :: "(nat \<Rightarrow> real) \<Rightarrow> string \<Rightarrow> game \<Rightarrow> game" where
  "handleKeyPress rnd key g =
    (if isWaitingForInput g then resumeGame rnd g
     else if \<not> isPlaying g then g
     else applyMove key g)"

subsection \<open>Events\<close>

text \<open>
  What the browser can deliver after loading: a click on one of the two play buttons, a
  key, a firing of the movement interval, a firing of the spawn interval. A key reaches
  \<open>handleKeyPress\<close> only while the listener is registered. Both interval callbacks test
  \<open>isPlaying\<close> themselves, and \<open>isPlaying\<close> is set only where both intervals are started,
  so the model lets them fire at any moment. The events that draw random numbers carry
  the draws.
\<close>

datatype event =
    Click "nat \<Rightarrow> real"
  | KeyDown "nat \<Rightarrow> real" string
  | GameInterval
  | CarInterval "nat \<Rightarrow> real"

definition dispatch :: "event \<Rightarrow> game \<Rightarrow> game" where
  "dispatch e g =
    (case e of
       Click rnd \<Rightarrow> startGame rnd g
     | KeyDown rnd key \<Rightarrow> if keydownListener g then handleKeyPress rnd key g else g
     | GameInterval \<Rightarrow> gameTick g
     | CarInterval rnd \<Rightarrow> carTick rnd g)"

definition run :: "event list \<Rightarrow> game \<Rightarrow> game" where
  "run es g = fold dispatch es g"

definition isClick :: "event \<Rightarrow> bool" where
  "isClick e = (case e of Click rnd \<Rightarrow> True | _ \<Rightarrow> False)"

subsection \<open>The candidate cell in the words of the specification\<close>

text \<open>
  Section 4.4 of the specification, step 1: the candidate is the current position moved one
  step in the requested direction and clamped against the grid bounds. \<open>spec_candidate\<close>
  is written from that sentence, to be compared with \<open>keyTarget\<close>, which is written from
  the code.
\<close>

definition clamp :: "int \<Rightarrow> int \<Rightarrow> int \<Rightarrow> int" where
  "clamp lo hi x = (if x < lo then lo else if hi < x then hi else x)"

definition stepOf :: "string \<Rightarrow> (int \<times> int) option" where
  "stepOf key =
    (if key = ''ArrowUp'' then Some (- 1, 0)
     else if key = ''ArrowDown'' then Some (1, 0)
     else if key = ''ArrowLeft'' then Some (0, - 1)
     else if key = ''ArrowRight'' then Some (0, 1)
     else None)"

definition spec_candidate :: "string \<Rightarrow> int \<Rightarrow> int \<Rightarrow> (int \<times> int) option" where
  "spec_candidate key r c =
    (case stepOf key of
       None \<Rightarrow> None
     | Some (dr, dc) \<Rightarrow> Some (clamp 0 (gridRows - 1) (r + dr), clamp 0 (gridCols - 1) (c + dc)))"

subsection \<open>Column range of the cars\<close>

definition colInGrid :: "car \<Rightarrow> bool" where
  "colInGrid car = (0 \<le> col car \<and> col car < gridCols)"

subsection \<open>A concrete game\<close>

text \<open>A position in mid-run: score 14, the player on row 5, three cars of which one stands
  on the left edge heading left and one on the right edge heading right.\<close>

definition demoCars :: "car list" where
  "demoCars =
    [\<lparr> row = 3, col = 0, direction = Left \<rparr>,
     \<lparr> row = 5, col = 9, direction = Right \<rparr>,
     \<lparr> row = 2, col = 4, direction = Left \<rparr>]"

definition demoGame :: game where
  "demoGame =
    \<lparr> isPlaying = True, score = 14, playerRow = 5, playerCol = 4, cars = demoCars,
      revealedComps = [0], isWaitingForInput = False, revealModal = None,
      keydownListener = True, playthroughs = None \<rparr>"

text \<open>A spawn tick whose three attempts all draw lane 4, a movement tick, a key.\<close>

definition demoEvents :: "event list" where
  "demoEvents = [CarInterval (\<lambda>k. 1 / 4), GameInterval, KeyDown (\<lambda>k. 0) ''ArrowUp'']"

section \<open>Construction\<close>

lemma member_handleTouchStart: "get_member own_fields ''handleTouchStart'' = Undefined"
  by (simp add: get_member_def own_fields_def Game_prototype_def)

lemma member_handleTouchEnd: "get_member own_fields ''handleTouchEnd'' = Undefined"
  by (simp add: get_member_def own_fields_def Game_prototype_def)

lemma bind_handleKeyPress:
  "bind_this own_fields ''handleKeyPress'' = Inr ((''handleKeyPress'', Function) # own_fields)"
  by (simp add: bind_this_def get_member_def own_fields_def Game_prototype_def)

lemma bind_handleTouchStart:
  "bind_this ((''handleKeyPress'', Function) # own_fields) ''handleTouchStart'' = Inl TypeError"
  by (simp add: bind_this_def get_member_def own_fields_def Game_prototype_def)

text \<open>
  C1. Constructing a \<open>Game\<close> throws a \<open>TypeError\<close>: neither \<open>handleTouchStart\<close> nor
  \<open>handleTouchEnd\<close> is a member of the object, so the second \<open>bind\<close> of the constructor
  reads \<open>bind\<close> from \<open>undefined\<close>; the loader therefore never reaches \<open>init\<close>.
\<close>

theorem constructor_throws:
  "get_member own_fields ''handleTouchStart'' = Undefined \<and>
   get_member own_fields ''handleTouchEnd'' = Undefined \<and>
   Game_constructor stored = Inl TypeError \<and>
   DOMContentLoaded stored = Inl TypeError"
  by (simp add: member_handleTouchStart member_handleTouchEnd Game_constructor_def
      DOMContentLoaded_def bind_handleKeyPress bind_handleTouchStart)

section \<open>What each method leaves alone\<close>

lemma spawnCars_frame:
  "isPlaying (spawnCars rnd g) = isPlaying g" "score (spawnCars rnd g) = score g"
  "playerRow (spawnCars rnd g) = playerRow g" "playerCol (spawnCars rnd g) = playerCol g"
  "revealedComps (spawnCars rnd g) = revealedComps g"
  "isWaitingForInput (spawnCars rnd g) = isWaitingForInput g"
  "revealModal (spawnCars rnd g) = revealModal g"
  "keydownListener (spawnCars rnd g) = keydownListener g"
  "playthroughs (spawnCars rnd g) = playthroughs g"
  by (simp_all add: spawnCars_def)

lemma gameOver_frame:
  "score (gameOver g) = score g" "playerRow (gameOver g) = playerRow g"
  "playerCol (gameOver g) = playerCol g" "cars (gameOver g) = cars g"
  "revealedComps (gameOver g) = revealedComps g"
  by (simp_all add: gameOver_def Let_def)

lemma milestone_pairs:
  "zip milestones [0 ..< length milestones] = [(10, 0), (20, Suc 0), (30, 2), (40, 3)]"
  by (simp add: milestones_def upt_rec)

text \<open>The four thresholds differ and \<open>reveal\<close> keeps the score, so at most one fires.\<close>

lemma check_cases:
  "checkCompetitionReveals g =
    (if score g = 10 \<and> 0 \<notin> set (revealedComps g) then reveal 0 g
     else if score g = 20 \<and> Suc 0 \<notin> set (revealedComps g) then reveal (Suc 0) g
     else if score g = 30 \<and> 2 \<notin> set (revealedComps g) then reveal 2 g
     else if score g = 40 \<and> 3 \<notin> set (revealedComps g) then reveal 3 g
     else g)"
  by (simp add: checkCompetitionReveals_def milestone_pairs revealStep_def reveal_def
      showRevealModal_def pauseGame_def)

lemma reveal_frame:
  "score (reveal i g) = score g" "playerRow (reveal i g) = playerRow g"
  "playerCol (reveal i g) = playerCol g" "cars (reveal i g) = cars g"
  "revealedComps (reveal i g) = revealedComps g @ [i]"
  "keydownListener (reveal i g) = keydownListener g" "playthroughs (reveal i g) = playthroughs g"
  "revealModal (reveal i g) = Some i" "isWaitingForInput (reveal i g)" "\<not> isPlaying (reveal i g)"
  by (simp_all add: reveal_def showRevealModal_def pauseGame_def)

lemma check_frame:
  "score (checkCompetitionReveals g) = score g"
  "playerRow (checkCompetitionReveals g) = playerRow g"
  "playerCol (checkCompetitionReveals g) = playerCol g"
  "cars (checkCompetitionReveals g) = cars g"
  by (simp_all add: check_cases reveal_frame)

lemma check_distinct:
  "distinct (revealedComps g) \<Longrightarrow> distinct (revealedComps (checkCompetitionReveals g))"
  by (simp add: check_cases reveal_frame)

lemma check_grows: "set (revealedComps g) \<subseteq> set (revealedComps (checkCompetitionReveals g))"
  by (auto simp: check_cases reveal_frame)

lemma commitMove_frame:
  "cars (commitMove r c g) = cars g" "playerRow (commitMove r c g) = r"
  "playerCol (commitMove r c g) = c"
  "score (commitMove r c g) = (if r < playerRow g then score g + 1 else score g)"
  by (simp_all add: commitMove_def Let_def check_frame)

lemma commitMove_distinct:
  "distinct (revealedComps g) \<Longrightarrow> distinct (revealedComps (commitMove r c g))"
  by (simp add: commitMove_def Let_def check_distinct)

lemma commitMove_grows: "set (revealedComps g) \<subseteq> set (revealedComps (commitMove r c g))"
  using check_grows[of "g\<lparr>playerRow := r, playerCol := c, score := score g + 1\<rparr>"]
  by (simp add: commitMove_def Let_def)

lemma infiniteScroll_frame:
  "score (infiniteScroll g) = score g" "revealedComps (infiniteScroll g) = revealedComps g"
  "playerCol (infiniteScroll g) = playerCol g"
  by (simp_all add: infiniteScroll_def shiftRows_def)

lemma applyMove_score:
  "score (applyMove key g) =
    (case keyTarget key g of None \<Rightarrow> score g
     | Some (nr, nc) \<Rightarrow> if (nr \<noteq> playerRow g \<or> nc \<noteq> playerCol g) \<and> nr < playerRow g
                        then score g + 1 else score g)"
  by (auto simp: applyMove_def Let_def gameOver_frame infiniteScroll_frame commitMove_frame
      split: option.splits)

lemma applyMove_blocked:
  "keyTarget key g = Some (playerRow g, playerCol g) \<Longrightarrow> applyMove key g = g"
  by (simp add: applyMove_def)

lemma applyMove_other_key: "keyTarget key g = None \<Longrightarrow> applyMove key g = g"
  by (simp add: applyMove_def)

lemma resumeGame_cars: "cars (resumeGame rnd g) = cars (spawnCars rnd g)"
  by (simp add: resumeGame_def startCarSpawning_def spawnCars_def)

lemma moveCar_row: "row (moveCar c) = row c"
  by (simp add: moveCar_def Let_def)

lemma moveCar_direction: "direction (moveCar c) = direction c"
  by (simp add: moveCar_def Let_def)

lemma gameTick_rows: "map row (cars (gameTick g)) = map row (cars g)"
  by (simp add: gameTick_def Let_def gameOver_frame moveCar_row)

lemma gameTick_cars: "isPlaying g \<Longrightarrow> cars (gameTick g) = map moveCar (cars g)"
  by (simp add: gameTick_def Let_def gameOver_frame)

lemma loaded_cars: "cars (init (Game_fields stored)) = []"
  by (simp add: init_def checkPermanentReveals_def Game_fields_def Let_def)

section \<open>Invariants of the grid\<close>

lemma start_inGrid: "inGrid 14 4"
  by (simp add: inGrid_def gridRows_def gridCols_def)

lemma keyTarget_inGrid:
  "inGrid (playerRow g) (playerCol g) \<Longrightarrow> keyTarget key g = Some (r, c) \<Longrightarrow> inGrid r c"
  by (auto simp: inGrid_def keyTarget_def gridRows_def gridCols_def split: if_splits)

lemma infiniteScroll_inGrid:
  "inGrid (playerRow g) (playerCol g) \<Longrightarrow>
   inGrid (playerRow (infiniteScroll g)) (playerCol (infiniteScroll g))"
  by (auto simp: inGrid_def infiniteScroll_def shiftRows_def gridRows_def)

lemma applyMove_inGrid:
  assumes "inGrid (playerRow g) (playerCol g)"
  shows "inGrid (playerRow (applyMove key g)) (playerCol (applyMove key g))"
proof (cases "keyTarget key g")
  case None
  then show ?thesis using assms by (simp add: applyMove_other_key)
next
  case (Some p)
  obtain r c where p: "p = (r, c)" by (cases p)
  have "inGrid r c"
    using keyTarget_inGrid[OF assms] Some p by simp
  then have "inGrid (playerRow (infiniteScroll (commitMove r c g)))
      (playerCol (infiniteScroll (commitMove r c g)))"
    by (intro infiniteScroll_inGrid) (simp add: commitMove_frame)
  then show ?thesis
    using assms Some p by (simp add: applyMove_def Let_def gameOver_frame)
qed

lemma dispatch_inGrid:
  "inGrid (playerRow g) (playerCol g) \<Longrightarrow>
   inGrid (playerRow (dispatch e g)) (playerCol (dispatch e g))"
  by (cases e)
    (simp_all add: dispatch_def startGame_def startCarSpawning_def spawnCars_frame
      handleKeyPress_def resumeGame_def applyMove_inGrid gameTick_def Let_def gameOver_frame
      carTick_def start_inGrid)

text \<open>The player never leaves the grid.\<close>

lemma run_inGrid:
  "inGrid (playerRow g) (playerCol g) \<Longrightarrow>
   inGrid (playerRow (run es g)) (playerCol (run es g))"
  unfolding run_def by (induction es arbitrary: g) (simp_all add: dispatch_inGrid)

lemma loaded_inGrid:
  "inGrid (playerRow (init (Game_fields stored))) (playerCol (init (Game_fields stored)))"
  by (simp add: init_def checkPermanentReveals_def Game_fields_def Let_def start_inGrid)

lemma spawnAttempt_cols:
  "list_all colInGrid cs \<Longrightarrow> list_all colInGrid (spawnAttempt r1 r2 cs)"
  by (simp add: spawnAttempt_def Let_def colInGrid_def gridCols_def)

lemma spawn_fold_cols:
  "list_all colInGrid cs \<Longrightarrow>
   list_all colInGrid (fold (\<lambda>i. spawnAttempt (f i) (h i)) is cs)"
  by (induction "is" arbitrary: cs) (simp_all add: spawnAttempt_cols)

lemma spawnCars_cols:
  "list_all colInGrid (cars g) \<Longrightarrow> list_all colInGrid (cars (spawnCars rnd g))"
  by (simp add: spawnCars_def spawn_fold_cols)

lemma moveCar_colInGrid: "colInGrid c \<Longrightarrow> colInGrid (moveCar c)"
  by (auto simp: colInGrid_def moveCar_def Let_def gridCols_def)

lemma gameTick_cols:
  "list_all colInGrid (cars g) \<Longrightarrow> list_all colInGrid (cars (gameTick g))"
  by (auto simp: gameTick_def Let_def gameOver_frame list_all_iff moveCar_colInGrid)

lemma applyMove_cols:
  "list_all colInGrid (cars g) \<Longrightarrow> list_all colInGrid (cars (applyMove key g))"
  by (auto simp: applyMove_def Let_def gameOver_frame commitMove_frame infiniteScroll_def
      shiftRows_def list_all_iff colInGrid_def split: option.splits)

lemma dispatch_cols:
  assumes "list_all colInGrid (cars g)"
  shows "list_all colInGrid (cars (dispatch e g))"
proof (cases e)
  case (Click rnd)
  have "list_all colInGrid (cars (spawnCars rnd (g\<lparr>revealModal := None, isPlaying := True,
      isWaitingForInput := False, score := 0, playerRow := 14, playerCol := 4, cars := [],
      revealedComps := [], keydownListener := True\<rparr>)))"
    by (rule spawnCars_cols) simp
  with Click show ?thesis by (simp add: dispatch_def startGame_def startCarSpawning_def)
next
  case (KeyDown rnd key)
  with assms show ?thesis
    by (simp add: dispatch_def handleKeyPress_def resumeGame_cars spawnCars_cols applyMove_cols)
next
  case GameInterval
  with assms show ?thesis by (simp add: dispatch_def gameTick_cols)
next
  case (CarInterval rnd)
  with assms show ?thesis by (simp add: dispatch_def carTick_def spawnCars_cols)
qed

text \<open>Every car stays within the columns of the grid.\<close>

lemma run_cols:
  "list_all colInGrid (cars g) \<Longrightarrow> list_all colInGrid (cars (run es g))"
  unfolding run_def by (induction es arbitrary: g) (simp_all add: dispatch_cols)

section \<open>The spawner's lanes\<close>

lemma spawnRow_bounds: "0 \<le> r \<Longrightarrow> r < 1 \<Longrightarrow> 1 \<le> spawnRow r \<and> spawnRow r \<le> 12"
  unfolding spawnRow_def by (simp add: floor_less_iff le_floor_iff)

lemma spawnRow_reaches:
  assumes "1 \<le> n" "n \<le> 12"
  shows "0 \<le> (real_of_int n - 1) / 12 \<and> (real_of_int n - 1) / 12 < 1 \<and>
         spawnRow ((real_of_int n - 1) / 12) = n"
proof -
  have "(real_of_int n - 1) / 12 * 12 = real_of_int (n - 1)"
    by simp
  then have "spawnRow ((real_of_int n - 1) / 12) = n"
    unfolding spawnRow_def by (simp only: floor_of_int)
  then show ?thesis using assms by simp
qed

lemma spawnAttempt_rows:
  assumes "0 \<le> r1" "r1 < 1" "c \<in> set (spawnAttempt r1 r2 cs)"
  shows "c \<in> set cs \<or> (1 \<le> row c \<and> row c \<le> 12)"
  using assms spawnRow_bounds[of r1] by (auto simp: spawnAttempt_def Let_def split: if_splits)

lemma spawn_fold_rows:
  assumes "\<forall>k. 0 \<le> rnd k \<and> rnd k < 1"
  shows "c \<in> set (fold (\<lambda>i. spawnAttempt (rnd (2 * i + 1)) (rnd (2 * i + 2))) is cs)
     \<Longrightarrow> c \<in> set cs \<or> (1 \<le> row c \<and> row c \<le> 12)"
proof (induction "is" arbitrary: cs)
  case Nil
  then show ?case by simp
next
  case (Cons i "is")
  from Cons.IH[OF Cons.prems[simplified]]
  show ?case using spawnAttempt_rows assms by blast
qed

text \<open>
  C2. The lane of a spawn attempt. \<open>renderGrid\<close> marks row 13 as a lane, and the comments
  of \<open>spawnCars\<close> say rows 1-13, but line 361 multiplies the draw by 12: for every draw in
  \<open>[0, 1)\<close> the chosen row lies in 1..12, every car that a call of \<open>spawnCars\<close> adds has
  its row in 1..12, and each row of 1..12 is chosen by some draw. No draw chooses row 13.
\<close>

theorem spawn_row_never_13:
  assumes "\<forall>k. 0 \<le> rnd k \<and> rnd k < 1"
  shows "isLane 13 \<and>
    (\<forall>k. 1 \<le> spawnRow (rnd k) \<and> spawnRow (rnd k) \<le> 12 \<and> spawnRow (rnd k) \<noteq> 13) \<and>
    (\<forall>c \<in> set (cars (spawnCars rnd g)). c \<in> set (cars g) \<or> (1 \<le> row c \<and> row c \<le> 12)) \<and>
    (\<forall>n \<in> {1..12}. \<exists>r. 0 \<le> r \<and> r < 1 \<and> spawnRow r = n)"
proof -
  have "1 \<le> spawnRow (rnd k) \<and> spawnRow (rnd k) \<le> 12 \<and> spawnRow (rnd k) \<noteq> 13" for k
    using assms spawnRow_bounds[of "rnd k"] by simp
  moreover have "\<forall>c \<in> set (cars (spawnCars rnd g)). c \<in> set (cars g) \<or> (1 \<le> row c \<and> row c \<le> 12)"
    using spawn_fold_rows[OF assms] by (auto simp: spawnCars_def)
  moreover have "\<forall>n \<in> {1..12}. \<exists>r. 0 \<le> r \<and> r < 1 \<and> spawnRow r = n"
    using spawnRow_reaches by (metis atLeastAtMost_iff)
  ultimately show ?thesis by (simp add: isLane_def)
qed

theorem spawn_row_never_13_witness:
  "0 \<le> (1 - 1 / 2 ^ 53 :: real) \<and> (1 - 1 / 2 ^ 53 :: real) < 1 \<and>
   spawnRow (1 - 1 / 2 ^ 53) = 12 \<and>
   cars (spawnCars (\<lambda>k. 1 - 1 / 2 ^ 53) (Game_fields None)) =
     [\<lparr> row = 12, col = 9, direction = Left \<rparr>]"
  using spawn_row_never_13[of "\<lambda>k. 1 - 1 / 2 ^ 53" "Game_fields None"]
  by (simp add: spawnCars_def Game_fields_def numCars_def spawnAttempt_def spawnRow_def
      spawnDirection_def gridCols_def upt_rec)

section \<open>Starting a run\<close>

text \<open>
  C3, as the code has it. \<open>startGame\<close> clears the revealed competitions without looking
  at the play count: the call of \<open>checkPermanentReveals\<close> in it is commented out as
  disabled. Whatever the state before, the list is empty right after \<open>startGame\<close>.
\<close>

theorem startGame_clears_reveals: "revealedComps (startGame rnd g) = []"
  by (simp add: startGame_def startCarSpawning_def spawnCars_frame)

text \<open>With a stored play count of 3 the load pre-seeds all four indices, and the first
  \<open>startGame\<close> drops them.\<close>

theorem preseed_cleared_counterexample:
  "playthroughs (Game_fields (Some 3)) = Some 3 \<and>
   revealedComps (init (Game_fields (Some 3))) = [0, 1, 2, 3] \<and>
   \<not> {0, 1, 2, 3} \<subseteq> set (revealedComps (startGame (\<lambda>k. 0) (init (Game_fields (Some 3)))))"
  by (simp add: startGame_def startCarSpawning_def spawnCars_frame init_def
      checkPermanentReveals_def Game_fields_def)

section \<open>The scroll\<close>

lemma shiftRows_retained: "\<forall>c \<in> set (cars (shiftRows g)). row c < gridRows"
  by (simp add: shiftRows_def)

text \<open>
  C4. A key commits a move (the game is playing and not waiting, the candidate differs from
  the player's cell); \<open>g1\<close> is the state after lines 262-271. If \<open>score g1 > 13\<close> and
  \<open>playerRow g1 < 5\<close>, the scroll puts the player on row \<open>playerRow g1 + 10\<close>, which is
  below \<open>gridRows\<close>; every car's row grows by 10; the cars whose new row is \<open>gridRows\<close> or
  more are dropped; every car kept has its row below \<open>gridRows\<close>. The collision check that
  follows changes neither the player's row nor the cars.
\<close>

theorem scroll_shift_invariant:
  assumes "isPlaying g" "\<not> isWaitingForInput g"
    and "keyTarget key g = Some (newRow, newCol)"
    and "newRow \<noteq> playerRow g \<or> newCol \<noteq> playerCol g"
    and "g1 = commitMove newRow newCol g"
    and "score g1 > 13" "playerRow g1 < 5"
  shows "playerRow (infiniteScroll g1) = playerRow g1 + 10 \<and>
         playerRow (infiniteScroll g1) < gridRows \<and>
         cars (infiniteScroll g1) =
           filter (\<lambda>c. row c < gridRows) (map (\<lambda>c. c\<lparr>row := row c + 10\<rparr>) (cars g1)) \<and>
         (\<forall>c \<in> set (cars (infiniteScroll g1)). row c < gridRows) \<and>
         playerRow (handleKeyPress rnd key g) = playerRow g1 + 10 \<and>
         cars (handleKeyPress rnd key g) = cars (infiniteScroll g1)"
proof -
  have s: "infiniteScroll g1 = shiftRows g1"
    using assms(6,7) by (simp add: infiniteScroll_def)
  have h: "handleKeyPress rnd key g =
      (if checkCollisions (infiniteScroll g1) then gameOver (infiniteScroll g1)
       else infiniteScroll g1)"
    using assms(1-5) by (auto simp: handleKeyPress_def applyMove_def Let_def)
  have p: "playerRow (shiftRows g1) = playerRow g1 + 10"
    by (simp add: shiftRows_def)
  have c: "cars (shiftRows g1) =
      filter (\<lambda>c. row c < gridRows) (map (\<lambda>c. c\<lparr>row := row c + 10\<rparr>) (cars g1))"
    by (simp add: shiftRows_def)
  have b: "playerRow g1 + 10 < gridRows"
    using assms(7) by (simp add: gridRows_def)
  show ?thesis
    using shiftRows_retained[of g1] by (simp add: s h p c b gameOver_frame)
qed

theorem scroll_shift_invariant_witness:
  "isPlaying demoGame \<and> \<not> isWaitingForInput demoGame \<and>
   keyTarget ''ArrowUp'' demoGame = Some (4, 4) \<and>
   score (commitMove 4 4 demoGame) = 15 \<and> playerRow (commitMove 4 4 demoGame) = 4 \<and>
   playerRow (handleKeyPress (\<lambda>k. 0) ''ArrowUp'' demoGame) = 14 \<and>
   cars (handleKeyPress (\<lambda>k. 0) ''ArrowUp'' demoGame) =
     [\<lparr> row = 13, col = 0, direction = Left \<rparr>, \<lparr> row = 12, col = 4, direction = Left \<rparr>]"
  using scroll_shift_invariant[of demoGame "''ArrowUp''" 4 4 "commitMove 4 4 demoGame" "\<lambda>k. 0"]
  by (simp add: demoGame_def demoCars_def keyTarget_def commitMove_frame infiniteScroll_def
      shiftRows_def gridRows_def)

lemma shiftRows_collision:
  assumes "playerRow g < 5"
  shows "checkCollisions (shiftRows g) = checkCollisions g"
proof -
  have "(row c + 10 < gridRows \<and> row c + 10 = playerRow g + 10 \<and> col c = playerCol g) =
        (row c = playerRow g \<and> col c = playerCol g)" for c :: car
    using assms by (auto simp: gridRows_def)
  then show ?thesis
    by (simp add: checkCollisions_def shiftRows_def list_ex_iff conj_assoc)
qed

text \<open>
  C5. The scroll keeps the collision predicate: when the player's row is below 5, some car
  stands on the player's cell after lines 277-284 exactly when one did before. The guarded
  scroll of lines 276-285 runs them only under that condition, so it keeps the predicate
  as well.
\<close>

theorem scroll_preserves_collision:
  assumes "playerRow g < 5"
  shows "checkCollisions (shiftRows g) = checkCollisions g \<and>
         checkCollisions (infiniteScroll g) = checkCollisions g"
  using shiftRows_collision[OF assms] by (simp add: infiniteScroll_def)

theorem scroll_preserves_collision_witness:
  "playerRow (demoGame\<lparr>playerRow := 3, playerCol := 0\<rparr>) < 5 \<and>
   checkCollisions (demoGame\<lparr>playerRow := 3, playerCol := 0\<rparr>) \<and>
   checkCollisions (shiftRows (demoGame\<lparr>playerRow := 3, playerCol := 0\<rparr>)) \<and>
   \<not> checkCollisions (demoGame\<lparr>playerRow := 4\<rparr>) \<and>
   \<not> checkCollisions (shiftRows (demoGame\<lparr>playerRow := 4\<rparr>))"
  using scroll_preserves_collision[of "demoGame\<lparr>playerRow := 3, playerCol := 0\<rparr>"]
    scroll_preserves_collision[of "demoGame\<lparr>playerRow := 4\<rparr>"]
  by (simp add: demoGame_def demoCars_def checkCollisions_def)

section \<open>Lane exclusivity\<close>

lemma spawnAttempt_distinct:
  "distinct (map row cs) \<Longrightarrow> distinct (map row (spawnAttempt r1 r2 cs))"
  by (auto simp: spawnAttempt_def Let_def list_ex_iff)

lemma spawnAttempt_occupied:
  "list_ex (\<lambda>c. row c = spawnRow r1) cs \<Longrightarrow> spawnAttempt r1 r2 cs = cs"
  by (simp add: spawnAttempt_def Let_def)

lemma spawn_fold_distinct:
  "distinct (map row cs) \<Longrightarrow>
   distinct (map row (fold (\<lambda>i. spawnAttempt (f i) (h i)) is cs))"
  by (induction "is" arbitrary: cs) (simp_all add: spawnAttempt_distinct)

lemma spawnCars_distinct:
  "distinct (map row (cars g)) \<Longrightarrow> distinct (map row (cars (spawnCars rnd g)))"
  by (simp add: spawnCars_def spawn_fold_distinct)

lemma shiftRows_distinct:
  assumes "distinct (map row (cars g))"
  shows "distinct (map row (cars (shiftRows g)))"
proof -
  have "map row (map (\<lambda>c. c\<lparr>row := row c + 10\<rparr>) (cars g)) = map (\<lambda>c. row c + 10) (cars g)"
    by simp
  moreover have "distinct (map (\<lambda>c. row c + 10) (cars g))"
    using assms by (auto simp: distinct_map inj_on_def)
  ultimately have "distinct (map row (map (\<lambda>c. c\<lparr>row := row c + 10\<rparr>) (cars g)))"
    by (simp only:)
  moreover have "cars (shiftRows g) =
      filter (\<lambda>c. row c < gridRows) (map (\<lambda>c. c\<lparr>row := row c + 10\<rparr>) (cars g))"
    by (simp add: shiftRows_def)
  ultimately show ?thesis
    by (simp only: distinct_map_filter)
qed

lemma infiniteScroll_distinct:
  "distinct (map row (cars g)) \<Longrightarrow> distinct (map row (cars (infiniteScroll g)))"
  by (simp add: infiniteScroll_def shiftRows_distinct)

lemma applyMove_distinct:
  "distinct (map row (cars g)) \<Longrightarrow> distinct (map row (cars (applyMove key g)))"
  by (auto simp: applyMove_def Let_def gameOver_frame commitMove_frame
      intro!: infiniteScroll_distinct split: option.splits)

lemma dispatch_distinct:
  assumes "distinct (map row (cars g))"
  shows "distinct (map row (cars (dispatch e g)))"
proof (cases e)
  case (Click rnd)
  have "distinct (map row (cars (spawnCars rnd (g\<lparr>revealModal := None, isPlaying := True,
      isWaitingForInput := False, score := 0, playerRow := 14, playerCol := 4, cars := [],
      revealedComps := [], keydownListener := True\<rparr>))))"
    by (rule spawnCars_distinct) simp
  with Click show ?thesis by (simp add: dispatch_def startGame_def startCarSpawning_def)
next
  case (KeyDown rnd key)
  then show ?thesis
    using assms
    by (simp add: dispatch_def handleKeyPress_def resumeGame_cars spawnCars_distinct
        applyMove_distinct)
next
  case GameInterval
  then show ?thesis using assms by (simp add: dispatch_def gameTick_rows)
next
  case (CarInterval rnd)
  then show ?thesis using assms by (simp add: dispatch_def carTick_def spawnCars_distinct)
qed

lemma run_distinct:
  "distinct (map row (cars g)) \<Longrightarrow> distinct (map row (cars (run es g)))"
  unfolding run_def by (induction es arbitrary: g) (simp_all add: dispatch_distinct)

lemma distinct_rows_count:
  "distinct (map row cs) \<Longrightarrow> length (filter (\<lambda>c. row c = r) cs) \<le> 1"
proof (induction cs)
  case Nil
  then show ?case by simp
next
  case (Cons c cs)
  show ?case
  proof (cases "row c = r")
    case True
    from Cons.prems have "row c \<notin> row ` set cs"
      by simp
    with True have "\<forall>x \<in> set cs. row x \<noteq> r"
      by (metis imageI)
    then have "filter (\<lambda>c. row c = r) cs = []"
      by (simp add: filter_empty_conv)
    with True show ?thesis by simp
  next
    case False
    with Cons show ?thesis by simp
  qed
qed

lemma demo_run:
  "cars (run demoEvents demoGame) =
    [\<lparr> row = 13, col = 9, direction = Left \<rparr>, \<lparr> row = 12, col = 3, direction = Left \<rparr>,
     \<lparr> row = 14, col = 1, direction = Right \<rparr>]"
  by (simp add: run_def demoEvents_def dispatch_def carTick_def spawnCars_def numCars_def
      spawnAttempt_def spawnRow_def spawnDirection_def gridCols_def gridRows_def upt_rec
      gameTick_def moveCar_def checkCollisions_def handleKeyPress_def applyMove_def
      keyTarget_def commitMove_def check_cases infiniteScroll_def shiftRows_def Let_def
      demoGame_def demoCars_def)

text \<open>
  C6. No row holds two cars. The rows of the cars are pairwise distinct after the load, and
  every event keeps them so: a click starts from no cars, a spawn attempt leaves the cars
  as they are when its row is taken (also by a car of the same call), the movement tick
  keeps every row, and the scroll adds 10 to all rows before it filters. Hence in every
  state that a sequence of events reaches, each row \<open>r\<close> holds at most one car.
\<close>

theorem lane_exclusivity:
  "(distinct (map row (cars g)) \<longrightarrow>
      distinct (map row (cars (run es g))) \<and>
      length (filter (\<lambda>c. row c = r) (cars (run es g))) \<le> 1) \<and>
   distinct (map row (cars (run es (init (Game_fields stored))))) \<and>
   length (filter (\<lambda>c. row c = r) (cars (run es (init (Game_fields stored))))) \<le> 1 \<and>
   (list_ex (\<lambda>c. row c = spawnRow r1) cs \<longrightarrow> spawnAttempt r1 r2 cs = cs) \<and>
   map row (cars (gameTick g)) = map row (cars g) \<and>
   (distinct (map row (cars g)) \<longrightarrow> distinct (map row (cars (shiftRows g))))"
proof -
  have "distinct (map row (cars (run es (init (Game_fields stored)))))"
    by (rule run_distinct) (simp add: loaded_cars)
  moreover have "distinct (map row (cars g)) \<longrightarrow>
      distinct (map row (cars (run es g))) \<and>
      length (filter (\<lambda>c. row c = r) (cars (run es g))) \<le> 1"
    using run_distinct[of g es] distinct_rows_count[of "cars (run es g)" r] by blast
  ultimately show ?thesis
    using distinct_rows_count[of "cars (run es (init (Game_fields stored)))" r]
      spawnAttempt_occupied[of r1 cs r2] gameTick_rows[of g] shiftRows_distinct[of g]
    by blast
qed

theorem lane_exclusivity_witness:
  "distinct (map row (cars demoGame)) \<and>
   cars (run demoEvents demoGame) =
    [\<lparr> row = 13, col = 9, direction = Left \<rparr>, \<lparr> row = 12, col = 3, direction = Left \<rparr>,
     \<lparr> row = 14, col = 1, direction = Right \<rparr>] \<and>
   distinct (map row (cars (run demoEvents demoGame))) \<and>
   list_ex (\<lambda>c. row c = spawnRow (1 / 6)) demoCars \<and>
   spawnAttempt (1 / 6) 0 demoCars = demoCars"
  using lane_exclusivity[of demoGame demoEvents 0 None "1 / 6" demoCars 0]
  by (simp add: demo_run) (simp add: demoGame_def demoCars_def spawnRow_def)

section \<open>Milestones\<close>

lemma milestone_nth:
  "i < length milestones \<Longrightarrow> score g = milestones ! i \<Longrightarrow>
   (i = 0 \<and> score g = 10) \<or> (i = Suc 0 \<and> score g = 20) \<or> (i = 2 \<and> score g = 30) \<or>
   (i = 3 \<and> score g = 40)"
  by (auto simp: milestones_def nth_Cons' less_Suc_eq numeral_eq_Suc split: if_splits)

lemma check_revealed_again:
  assumes "i < length milestones" "score g = milestones ! i" "i \<in> set (revealedComps g)"
  shows "checkCompetitionReveals g = g"
  using milestone_nth[OF assms(1,2)] assms(3) by (auto simp: check_cases)

lemma check_fires:
  assumes "i < length milestones" "score g = milestones ! i" "i \<notin> set (revealedComps g)"
  shows "checkCompetitionReveals g = reveal i g"
  using milestone_nth[OF assms(1,2)] assms(3) by (auto simp: check_cases)

lemma check_new_index:
  assumes "i \<in> set (revealedComps (checkCompetitionReveals g))" "i \<notin> set (revealedComps g)"
  shows "i < length milestones \<and> score g = milestones ! i \<and>
         checkCompetitionReveals g = reveal i g"
  using assms by (auto simp: check_cases reveal_frame milestones_def split: if_splits)

lemma check_idem:
  "checkCompetitionReveals (checkCompetitionReveals g) = checkCompetitionReveals g"
  by (simp add: check_cases[of "reveal _ g"] check_cases[of g] reveal_frame)

text \<open>Where no threshold is both reached and unrevealed, the check does nothing: no index is
  pushed, no reveal is shown, the game is not paused.\<close>

lemma check_no_fire:
  assumes "\<not> (\<exists>j < length milestones. score g = milestones ! j \<and> j \<notin> set (revealedComps g))"
  shows "checkCompetitionReveals g = g"
proof -
  have h: "j \<in> set (revealedComps g)" if "j < 4" "score g = milestones ! j" for j
    using assms that by (auto simp: milestones_def)
  have "score g = 10 \<longrightarrow> 0 \<in> set (revealedComps g)"
    using h[of 0] by (simp add: milestones_def)
  moreover have "score g = 20 \<longrightarrow> Suc 0 \<in> set (revealedComps g)"
    using h[of "Suc 0"] by (simp add: milestones_def)
  moreover have "score g = 30 \<longrightarrow> 2 \<in> set (revealedComps g)"
    using h[of 2] by (simp add: milestones_def)
  moreover have "score g = 40 \<longrightarrow> 3 \<in> set (revealedComps g)"
    using h[of 3] by (simp add: milestones_def)
  ultimately show ?thesis
    by (auto simp: check_cases)
qed

lemma check_off_threshold: "score g \<notin> set milestones \<Longrightarrow> checkCompetitionReveals g = g"
  by (simp add: check_cases milestones_def)

lemma applyMove_reveals_distinct:
  "distinct (revealedComps g) \<Longrightarrow> distinct (revealedComps (applyMove key g))"
  by (auto simp: applyMove_def Let_def gameOver_frame infiniteScroll_frame commitMove_distinct
      split: option.splits)

lemma applyMove_reveals_grow: "set (revealedComps g) \<subseteq> set (revealedComps (applyMove key g))"
  using commitMove_grows[of g]
  by (auto simp: applyMove_def Let_def gameOver_frame infiniteScroll_frame split: option.splits)

lemma dispatch_reveals_distinct:
  "distinct (revealedComps g) \<Longrightarrow> distinct (revealedComps (dispatch e g))"
  by (cases e)
    (simp_all add: dispatch_def startGame_def startCarSpawning_def spawnCars_frame
      handleKeyPress_def resumeGame_def applyMove_reveals_distinct gameTick_def Let_def
      gameOver_frame carTick_def)

lemma dispatch_reveals_grow:
  "\<not> isClick e \<Longrightarrow> set (revealedComps g) \<subseteq> set (revealedComps (dispatch e g))"
  using applyMove_reveals_grow[of g]
  by (cases e)
    (auto simp: isClick_def dispatch_def spawnCars_frame startCarSpawning_def
      handleKeyPress_def resumeGame_def gameTick_def Let_def gameOver_frame carTick_def)

lemma run_reveals_distinct:
  "distinct (revealedComps g) \<Longrightarrow> distinct (revealedComps (run es g))"
  unfolding run_def by (induction es arbitrary: g) (simp_all add: dispatch_reveals_distinct)

lemma run_reveals_grow:
  "\<not> list_ex isClick es \<Longrightarrow> set (revealedComps g) \<subseteq> set (revealedComps (run es g))"
  unfolding run_def
proof (induction es arbitrary: g)
  case Nil
  then show ?case by simp
next
  case (Cons e es)
  have "set (revealedComps g) \<subseteq> set (revealedComps (dispatch e g))"
    using Cons.prems by (simp add: dispatch_reveals_grow)
  also have "\<dots> \<subseteq> set (revealedComps (fold dispatch es (dispatch e g)))"
    using Cons.prems by (intro Cons.IH) simp
  finally show ?case by simp
qed

lemma loaded_reveals_distinct: "distinct (revealedComps (init (Game_fields stored)))"
  by (simp add: init_def checkPermanentReveals_def Game_fields_def Let_def)

text \<open>
  C7. A milestone fires at most once in a run. The check adds an index \<open>i\<close> that was not
  revealed only if \<open>i\<close> is one of the four indices and the score equals the \<open>i\<close>-th
  threshold; in that case it does exactly \<open>reveal i\<close>. In every other case the check is the
  identity, so it pushes nothing and shows no reveal: when the score is no threshold at
  all, and more generally when no threshold is both equal to the score and unrevealed;
  in particular when \<open>i\<close> is revealed already and the score equals its threshold.
  Checking twice is checking once. The revealed list never holds an index twice, in any
  state that events reach from the load, and between two clicks (within a run) it only
  grows, so an index that has fired stays revealed and cannot fire again.
\<close>

theorem milestone_fires_once:
  "(distinct (revealedComps g) \<longrightarrow> distinct (revealedComps (checkCompetitionReveals g))) \<and>
   (i \<in> set (revealedComps (checkCompetitionReveals g)) \<and> i \<notin> set (revealedComps g) \<longrightarrow>
      i < length milestones \<and> score g = milestones ! i) \<and>
   (i < length milestones \<and> score g = milestones ! i \<and> i \<notin> set (revealedComps g) \<longrightarrow>
      checkCompetitionReveals g = reveal i g) \<and>
   (i < length milestones \<and> score g = milestones ! i \<and> i \<in> set (revealedComps g) \<longrightarrow>
      checkCompetitionReveals g = g) \<and>
   (score g \<notin> set milestones \<longrightarrow> checkCompetitionReveals g = g) \<and>
   (\<not> (\<exists>j < length milestones. score g = milestones ! j \<and> j \<notin> set (revealedComps g)) \<longrightarrow>
      checkCompetitionReveals g = g) \<and>
   checkCompetitionReveals (checkCompetitionReveals g) = checkCompetitionReveals g \<and>
   distinct (revealedComps (run es (init (Game_fields stored)))) \<and>
   (\<not> list_ex isClick es \<longrightarrow> set (revealedComps g) \<subseteq> set (revealedComps (run es g)))"
proof -
  have "score g \<notin> set milestones \<longrightarrow> checkCompetitionReveals g = g"
    using check_off_threshold[of g] by blast
  moreover have
    "\<not> (\<exists>j < length milestones. score g = milestones ! j \<and> j \<notin> set (revealedComps g)) \<longrightarrow>
      checkCompetitionReveals g = g"
    using check_no_fire[of g] by blast
  ultimately show ?thesis
    using check_distinct[of g] check_new_index[of i g] check_fires[of i g]
      check_revealed_again[of i g] check_idem[of g]
      run_reveals_distinct[OF loaded_reveals_distinct, of es stored]
      run_reveals_grow[of es g]
    by blast
qed

theorem milestone_fires_once_witness:
  "(0 :: nat) < length milestones \<and> score (demoGame\<lparr>score := 10\<rparr>) = milestones ! 0 \<and>
   0 \<in> set (revealedComps (demoGame\<lparr>score := 10\<rparr>)) \<and>
   checkCompetitionReveals (demoGame\<lparr>score := 10\<rparr>) = demoGame\<lparr>score := 10\<rparr> \<and>
   Suc 0 < length milestones \<and> score (demoGame\<lparr>score := 20\<rparr>) = milestones ! Suc 0 \<and>
   Suc 0 \<notin> set (revealedComps (demoGame\<lparr>score := 20\<rparr>)) \<and>
   revealedComps (checkCompetitionReveals (demoGame\<lparr>score := 20\<rparr>)) = [0, Suc 0] \<and>
   revealModal (checkCompetitionReveals (demoGame\<lparr>score := 20\<rparr>)) = Some (Suc 0) \<and>
   distinct (revealedComps (checkCompetitionReveals (demoGame\<lparr>score := 20\<rparr>))) \<and>
   score (demoGame\<lparr>score := 11, revealedComps := []\<rparr>) \<notin> set milestones \<and>
   checkCompetitionReveals (demoGame\<lparr>score := 11, revealedComps := []\<rparr>) =
     demoGame\<lparr>score := 11, revealedComps := []\<rparr> \<and>
   \<not> list_ex isClick demoEvents"
  using milestone_fires_once[of "demoGame\<lparr>score := 10\<rparr>" 0 demoEvents None]
    milestone_fires_once[of "demoGame\<lparr>score := 20\<rparr>" "Suc 0" demoEvents None]
    milestone_fires_once[of "demoGame\<lparr>score := 11, revealedComps := []\<rparr>" 0 demoEvents None]
  by (simp add: demoGame_def milestones_def check_cases reveal_frame demoEvents_def
      isClick_def)

section \<open>The score\<close>

lemma dispatch_score:
  "\<not> isClick e \<Longrightarrow> score g \<le> score (dispatch e g)"
  by (cases e)
    (auto simp: isClick_def dispatch_def handleKeyPress_def resumeGame_def startCarSpawning_def
      spawnCars_frame applyMove_score gameTick_def Let_def gameOver_frame carTick_def
      split: option.splits)

lemma run_score: "\<not> list_ex isClick es \<Longrightarrow> score g \<le> score (run es g)"
  unfolding run_def
proof (induction es arbitrary: g)
  case Nil
  then show ?case by simp
next
  case (Cons e es)
  have "score g \<le> score (dispatch e g)"
    using Cons.prems by (simp add: dispatch_score)
  also have "\<dots> \<le> score (fold dispatch es (dispatch e g))"
    using Cons.prems by (intro Cons.IH) simp
  finally show ?case by simp
qed

text \<open>
  C8. The score within a run. A key adds exactly 1 to the score when it commits a move (the
  game is playing and not waiting, and the candidate differs from the player's cell) whose
  new row is strictly less than the old one, and leaves the score as it is otherwise. The
  movement tick, the spawn tick, a spawn and the scroll leave the score as it is. So along
  any sequence of events without a click (a click starts a new run), the score never
  decreases.
\<close>

theorem score_monotone:
  "score (handleKeyPress rnd key g) =
     (if \<not> isWaitingForInput g \<and> isPlaying g \<and>
         (\<exists>newRow newCol. keyTarget key g = Some (newRow, newCol) \<and>
            (newRow \<noteq> playerRow g \<or> newCol \<noteq> playerCol g) \<and> newRow < playerRow g)
      then score g + 1 else score g) \<and>
   score (gameTick g) = score g \<and>
   score (carTick rnd g) = score g \<and>
   score (spawnCars rnd g) = score g \<and>
   score (infiniteScroll g) = score g \<and>
   score (shiftRows g) = score g \<and>
   (\<not> list_ex isClick es \<longrightarrow> score g \<le> score (run es g))"
proof -
  have "score (handleKeyPress rnd key g) =
     (if \<not> isWaitingForInput g \<and> isPlaying g \<and>
         (\<exists>newRow newCol. keyTarget key g = Some (newRow, newCol) \<and>
            (newRow \<noteq> playerRow g \<or> newCol \<noteq> playerCol g) \<and> newRow < playerRow g)
      then score g + 1 else score g)"
    by (auto simp: handleKeyPress_def resumeGame_def startCarSpawning_def spawnCars_frame
        applyMove_score split: option.splits)
  moreover have "score (gameTick g) = score g"
    by (simp add: gameTick_def Let_def gameOver_frame)
  moreover have "score (carTick rnd g) = score g"
    by (simp add: carTick_def spawnCars_frame)
  moreover have "score (shiftRows g) = score g"
    by (simp add: shiftRows_def)
  ultimately show ?thesis
    using run_score[of es g] by (simp add: spawnCars_frame infiniteScroll_frame)
qed

theorem score_monotone_witness:
  "score (handleKeyPress (\<lambda>k. 0) ''ArrowUp'' demoGame) = 15 \<and>
   score (handleKeyPress (\<lambda>k. 0) ''ArrowLeft'' demoGame) = 14 \<and>
   score (handleKeyPress (\<lambda>k. 0) ''ArrowDown'' demoGame) = 14 \<and>
   \<not> list_ex isClick demoEvents \<and>
   score demoGame \<le> score (run demoEvents demoGame)"
  using score_monotone[of "\<lambda>k. 0" "''ArrowUp''" demoGame demoEvents]
    score_monotone[of "\<lambda>k. 0" "''ArrowLeft''" demoGame demoEvents]
    score_monotone[of "\<lambda>k. 0" "''ArrowDown''" demoGame demoEvents]
  by (simp add: demoGame_def demoCars_def keyTarget_def demoEvents_def isClick_def
      gridRows_def)

section \<open>The movement tick\<close>

lemma wrap_left:
  "0 \<le> x \<Longrightarrow> x < 10 \<Longrightarrow> (x - 1) mod 10 = (if x = 0 then 9 else x - 1)" for x :: int
  by (cases "x = 0") simp_all

lemma wrap_right:
  "0 \<le> x \<Longrightarrow> x < 10 \<Longrightarrow> (x + 1) mod 10 = (if x = 9 then 0 else x + 1)" for x :: int
  by (cases "x = 9") simp_all

lemma moveCar_col:
  assumes "0 \<le> col c" "col c < gridCols"
  shows "col (moveCar c) =
      (case direction c of
         Left \<Rightarrow> if col c = 0 then gridCols - 1 else col c - 1
       | Right \<Rightarrow> if col c = gridCols - 1 then 0 else col c + 1)"
    and "col (moveCar c) =
      (case direction c of Left \<Rightarrow> (col c - 1) mod gridCols | Right \<Rightarrow> (col c + 1) mod gridCols)"
  using assms
  by (auto simp: moveCar_def Let_def gridCols_def wrap_left wrap_right split: direction.splits)

text \<open>
  C9. One movement tick of a running game, on cars whose columns lie in the grid: the cars
  stay as many and in the same order, each keeps its row and its direction, and its column
  moves one step in its direction modulo \<open>gridCols\<close>: from column 0 heading left to
  \<open>gridCols - 1\<close>, from \<open>gridCols - 1\<close> heading right to 0, and to the column minus one
  (left) or plus one (right) otherwise. The columns of the cars lie in the grid in every
  state that events reach from the load.
\<close>

theorem obstacle_wraparound:
  "(isPlaying g \<and> list_all colInGrid (cars g) \<longrightarrow>
     length (cars (gameTick g)) = length (cars g) \<and>
     (\<forall>i < length (cars g).
        row (cars (gameTick g) ! i) = row (cars g ! i) \<and>
        direction (cars (gameTick g) ! i) = direction (cars g ! i) \<and>
        col (cars (gameTick g) ! i) =
          (case direction (cars g ! i) of
             Left \<Rightarrow> if col (cars g ! i) = 0 then gridCols - 1 else col (cars g ! i) - 1
           | Right \<Rightarrow> if col (cars g ! i) = gridCols - 1 then 0 else col (cars g ! i) + 1) \<and>
        col (cars (gameTick g) ! i) =
          (case direction (cars g ! i) of
             Left \<Rightarrow> (col (cars g ! i) - 1) mod gridCols
           | Right \<Rightarrow> (col (cars g ! i) + 1) mod gridCols))) \<and>
   list_all colInGrid (cars (run es (init (Game_fields stored))))"
proof -
  have "list_all colInGrid (cars (run es (init (Game_fields stored))))"
    by (rule run_cols) (simp add: loaded_cars)
  moreover have "length (cars (gameTick g)) = length (cars g) \<and>
     (\<forall>i < length (cars g).
        row (cars (gameTick g) ! i) = row (cars g ! i) \<and>
        direction (cars (gameTick g) ! i) = direction (cars g ! i) \<and>
        col (cars (gameTick g) ! i) =
          (case direction (cars g ! i) of
             Left \<Rightarrow> if col (cars g ! i) = 0 then gridCols - 1 else col (cars g ! i) - 1
           | Right \<Rightarrow> if col (cars g ! i) = gridCols - 1 then 0 else col (cars g ! i) + 1) \<and>
        col (cars (gameTick g) ! i) =
          (case direction (cars g ! i) of
             Left \<Rightarrow> (col (cars g ! i) - 1) mod gridCols
           | Right \<Rightarrow> (col (cars g ! i) + 1) mod gridCols))"
    if p: "isPlaying g" and c: "list_all colInGrid (cars g)"
  proof -
    have "0 \<le> col (cars g ! i) \<and> col (cars g ! i) < gridCols" if "i < length (cars g)" for i
      using c that by (simp add: list_all_length colInGrid_def)
    then show ?thesis
      using moveCar_col
      by (simp add: gameTick_cars[OF p] moveCar_row moveCar_direction)
  qed
  ultimately show ?thesis by blast
qed

theorem obstacle_wraparound_witness:
  "isPlaying demoGame \<and> list_all colInGrid (cars demoGame) \<and>
   cars (gameTick demoGame) =
     [\<lparr> row = 3, col = 9, direction = Left \<rparr>, \<lparr> row = 5, col = 0, direction = Right \<rparr>,
      \<lparr> row = 2, col = 3, direction = Left \<rparr>]"
  using obstacle_wraparound[of demoGame Nil None]
  by (simp add: demoGame_def demoCars_def colInGrid_def gridCols_def gameTick_def moveCar_def
      checkCollisions_def Let_def)

section \<open>Blocked moves\<close>

lemma keyTarget_clamped:
  "inGrid (playerRow g) (playerCol g) \<Longrightarrow>
   keyTarget key g = spec_candidate key (playerRow g) (playerCol g)"
  by (auto simp: inGrid_def keyTarget_def spec_candidate_def stepOf_def clamp_def gridRows_def
      gridCols_def)

text \<open>
  C10. For a player inside the grid, the candidate cell of a key is the cell of the
  specification: one step in the requested direction, clamped against the grid bounds,
  without wraparound. When the candidate is the player's own cell, lines 240-294 return
  the state as it is: position, score, cars, revealed competitions, the playing and
  waiting flags and the stored play count are all unchanged, so neither a collision check
  nor a game over has taken place; the same holds of \<open>handleKeyPress\<close> whenever the key
  is handled as a move, that is, when the game is not waiting on a reveal (where any key
  resumes). The player is inside the grid in every state that events reach from the load.
\<close>

theorem blocked_move_is_noop:
  "(inGrid (playerRow g) (playerCol g) \<longrightarrow>
      keyTarget key g = spec_candidate key (playerRow g) (playerCol g)) \<and>
   (keyTarget key g = Some (playerRow g, playerCol g) \<longrightarrow>
      applyMove key g = g \<and> (\<not> isWaitingForInput g \<longrightarrow> handleKeyPress rnd key g = g)) \<and>
   inGrid (playerRow (run es (init (Game_fields stored))))
     (playerCol (run es (init (Game_fields stored))))"
  using keyTarget_clamped[of g key] applyMove_blocked[of key g]
    run_inGrid[OF loaded_inGrid, of es stored]
  by (simp add: handleKeyPress_def)

theorem blocked_move_is_noop_witness:
  "inGrid (playerRow (demoGame\<lparr>playerCol := 0\<rparr>)) (playerCol (demoGame\<lparr>playerCol := 0\<rparr>)) \<and>
   spec_candidate ''ArrowLeft'' 5 0 = Some (5, 0) \<and>
   keyTarget ''ArrowLeft'' (demoGame\<lparr>playerCol := 0\<rparr>) = Some (5, 0) \<and>
   \<not> isWaitingForInput (demoGame\<lparr>playerCol := 0\<rparr>) \<and>
   handleKeyPress (\<lambda>k. 0) ''ArrowLeft'' (demoGame\<lparr>playerCol := 0\<rparr>) = demoGame\<lparr>playerCol := 0\<rparr>"
  using blocked_move_is_noop[of "demoGame\<lparr>playerCol := 0\<rparr>" "''ArrowLeft''" "\<lambda>k. 0" Nil None]
  by (simp add: demoGame_def demoCars_def keyTarget_def inGrid_def gridRows_def gridCols_def
      spec_candidate_def stepOf_def clamp_def)

end
